theory Spec2Isabelle
  imports Main "HOL-Library.Sublist"
begin

section \<open>The cycle calculator of \<^verbatim>\<open>backend/app/services/cycle.py\<close>\<close>

subsection \<open>Calendar dates\<close>

text \<open>
  The service works on \<^verbatim>\<open>datetime.date\<close> values. A date is a year, a month and a day;
  the three operations the service uses are the type test \<^verbatim>\<open>isinstance(x, date)\<close>,
  the comparison \<^verbatim>\<open>a < b\<close> (lexicographic on year, month, day) and the difference
  \<^verbatim>\<open>(a - b).days\<close>, which the library computes as the difference of the proleptic
  Gregorian ordinals of the two dates.
\<close>

record date =
  year :: int
  month :: int
  day :: int

definition is_leap :: "int \<Rightarrow> bool" where
  "is_leap y \<longleftrightarrow> y mod 4 = 0 \<and> (y mod 100 \<noteq> 0 \<or> y mod 400 = 0)"

definition days_before_year :: "int \<Rightarrow> int" where
  "days_before_year y =
     (let p = y - 1 in p * 365 + p div 4 - p div 100 + p div 400)"

definition days_in_month :: "int \<Rightarrow> int \<Rightarrow> int" where
  "days_in_month y m =
     (if m = 2 then (if is_leap y then 29 else 28)
      else if m = 4 \<or> m = 6 \<or> m = 9 \<or> m = 11 then 30
      else 31)"

definition days_before_month :: "int \<Rightarrow> int \<Rightarrow> int" where
  "days_before_month y m =
     (if m = 1 then 0 else if m = 2 then 31 else if m = 3 then 59
      else if m = 4 then 90 else if m = 5 then 120 else if m = 6 then 151
      else if m = 7 then 181 else if m = 8 then 212 else if m = 9 then 243
      else if m = 10 then 273 else if m = 11 then 304 else 334)
     + (if 2 < m \<and> is_leap y then 1 else 0)"

definition toordinal :: "date \<Rightarrow> int" where
  "toordinal d = days_before_year (year d) + days_before_month (year d) (month d) + day d"

text \<open>The dates that a \<^verbatim>\<open>date\<close> object can hold: years 1 to 9999, a month of the
  year, a day of that month.\<close>

definition valid_date :: "date \<Rightarrow> bool" where
  "valid_date d \<longleftrightarrow>
     1 \<le> year d \<and> year d \<le> 9999 \<and> 1 \<le> month d \<and> month d \<le> 12 \<and>
     1 \<le> day d \<and> day d \<le> days_in_month (year d) (month d)"

definition date_lt :: "date \<Rightarrow> date \<Rightarrow> bool" where
  "date_lt a b \<longleftrightarrow>
     year a < year b \<or>
     (year a = year b \<and> (month a < month b \<or> (month a = month b \<and> day a < day b)))"

definition sub_days :: "date \<Rightarrow> date \<Rightarrow> int" where
  "sub_days a b = toordinal a - toordinal b"

subsection \<open>Values and errors\<close>

text \<open>
  Python does not enforce the annotation \<^verbatim>\<open>target_date: date\<close>, and the service tests the
  type itself, so a date argument is any value; only a \<open>PyDate\<close> passes the test.
  A \<^verbatim>\<open>datetime\<close>, which is a \<^verbatim>\<open>date\<close> with a time of day, is not among the values
  modelled. The integer arguments are Python's unbounded integers, and \<^verbatim>\<open>%\<close> on them
  with a positive divisor is \<open>mod\<close> on \<open>int\<close>.
\<close>

datatype pyval = PyDate date | PyNone | PyStr string | PyInt int

fun isinstance_date :: "pyval \<Rightarrow> bool" where
  "isinstance_date (PyDate d) = True"
| "isinstance_date v = False"

text \<open>An exception is a value: its class and its message.\<close>

datatype error = ValueError string | KeyError string | AttributeError string | Exception string

subsection \<open>Constants\<close>

definition MIN_CYCLE_LENGTH :: int where
  "MIN_CYCLE_LENGTH = 21"

definition MAX_CYCLE_LENGTH :: int where
  "MAX_CYCLE_LENGTH = 35"

definition VALID_PHASES :: "string set" where
  "VALID_PHASES = {''menstrual'', ''follicular'', ''ovulatory'', ''luteal''}"

subsection \<open>The cycle day\<close>

definition clamp_cycle_length :: "int \<Rightarrow> int" where
  "clamp_cycle_length v = max MIN_CYCLE_LENGTH (min v MAX_CYCLE_LENGTH)"

fun get_cycle_day :: "pyval \<Rightarrow> pyval \<Rightarrow> int \<Rightarrow> error + int" where
  "get_cycle_day (PyDate target_date) (PyDate last_period_start_date) cycle_length =
     (if cycle_length \<le> 0 then
        Inl (ValueError ''cycle_length must be a positive integer.'')
      else if date_lt target_date last_period_start_date then
        Inl (ValueError ''Target date can not be before the last period start date.'')
      else
        (let clamped = clamp_cycle_length cycle_length;
             diff = sub_days target_date last_period_start_date
         in Inr (diff mod clamped + 1)))"
| "get_cycle_day target_date last_period_start_date cycle_length =
     Inl (ValueError ''target_date and last_period_start_date must be date objects.'')"

subsection \<open>The phase\<close>

definition get_cycle_phase :: "int \<Rightarrow> int \<Rightarrow> int \<Rightarrow> int \<Rightarrow> error + string" where
  "get_cycle_phase cycle_day cycle_length period_length luteal_phase_length =
     (if cycle_day \<le> 0 \<or> cycle_length \<le> 0 \<or> period_length \<le> 0 \<or> luteal_phase_length \<le> 0 then
        Inl (ValueError
          ''Cycle day, cycle length, period length, and luteal phase length must be positive integers.'')
      else if period_length > cycle_length then
        Inl (ValueError ''Period length cannot be longer than cycle length.'')
      else
        (let clamped = clamp_cycle_length cycle_length in
         if cycle_day \<le> period_length then Inr ''menstrual''
         else
           (let luteal_start = clamped - luteal_phase_length in
            if cycle_day \<ge> luteal_start then Inr ''luteal''
            else
              (let ovulation_day = clamped - luteal_phase_length - 1 in
               if ovulation_day \<le> cycle_day \<and> cycle_day \<le> ovulation_day + 2 then Inr ''ovulatory''
               else Inr ''follicular''))))"

subsection \<open>Phase details\<close>

record PhaseDetails =
  energy :: string
  emotional :: string
  nutrition :: string
  exercise :: string

definition menstrual_details :: PhaseDetails where
  "menstrual_details = \<lparr>
     energy = ''Energy levels may be lower. Focus on rest and gentle movement.'',
     emotional = ''You may experience mood swings. Practice self-compassion.'',
     nutrition = ''Iron-rich foods are important. Stay hydrated and consider warm, nourishing meals.'',
     exercise = ''Light exercises like walking or gentle yoga are recommended.''\<rparr>"

definition follicular_details :: PhaseDetails where
  "follicular_details = \<lparr>
     energy = ''Energy levels begin to rise. Good time for new projects.'',
     emotional = ''Increased optimism and creativity. Social energy is high.'',
     nutrition = ''Focus on lean proteins and fresh vegetables to support hormonal balance.'',
     exercise = ''Great time for high-intensity workouts and trying new activities.''\<rparr>"

definition ovulatory_details :: PhaseDetails where
  "ovulatory_details = \<lparr>
     energy = ''Peak energy levels. Take advantage of natural confidence.'',
     emotional = ''High communication skills and social confidence.'',
     nutrition = ''Eat light, fresh foods. Support detoxification with leafy greens.'',
     exercise = ''Perfect for challenging workouts and endurance training.''\<rparr>"

definition luteal_details :: PhaseDetails where
  "luteal_details = \<lparr>
     energy = ''Energy gradually decreases. Listen to your body's needs.'',
     emotional = ''May experience PMS symptoms. Focus on self-care.'',
     nutrition = ''Include complex carbs and magnesium-rich foods to support mood.'',
     exercise = ''Moderate exercise like swimming or pilates works well.''\<rparr>"

text \<open>The table \<^verbatim>\<open>PHASE_DETAILS\<close> is a dictionary with four keys.\<close>

definition PHASE_DETAILS :: "string \<rightharpoonup> PhaseDetails" where
  "PHASE_DETAILS = map_of
     [(''menstrual'', menstrual_details),
      (''follicular'', follicular_details),
      (''ovulatory'', ovulatory_details),
      (''luteal'', luteal_details)]"

text \<open>A subscript \<^verbatim>\<open>PHASE_DETAILS[k]\<close> raises \<^verbatim>\<open>KeyError\<close> when the key is absent.\<close>

definition getitem :: "(string \<rightharpoonup> 'v) \<Rightarrow> string \<Rightarrow> error + 'v" where
  "getitem m k = (case m k of None \<Rightarrow> Inl (KeyError k) | Some v \<Rightarrow> Inr v)"

text \<open>The messages that the service writes to its log (the warning of
  \<^verbatim>\<open>get_phase_details\<close> for an unknown phase, the result line of \<^verbatim>\<open>get_day_info\<close>)
  are not part of any result and are left out.\<close>

definition get_phase_details :: "string \<Rightarrow> error + PhaseDetails" where
  "get_phase_details phase =
     (if phase \<notin> VALID_PHASES then getitem PHASE_DETAILS ''follicular''
      else getitem PHASE_DETAILS phase)"

text \<open>A record whose four texts are all non-empty.\<close>

definition populated :: "PhaseDetails \<Rightarrow> bool" where
  "populated p \<longleftrightarrow> energy p \<noteq> [] \<and> emotional p \<noteq> [] \<and> nutrition p \<noteq> [] \<and> exercise p \<noteq> []"

definition model_dump :: "PhaseDetails \<Rightarrow> (string \<times> string) list" where
  "model_dump p =
     [(''energy'', energy p), (''emotional'', emotional p),
      (''nutrition'', nutrition p), (''exercise'', exercise p)]"

subsection \<open>Day information\<close>

text \<open>
  \<^verbatim>\<open>DayInfo.date\<close> is declared a \<^verbatim>\<open>date\<close>; the service hands the model the ISO string
  of the target date, which the model parses back to the same date.
\<close>

record DayInfo =
  date :: date
  cycleDay :: int
  phase :: string
  details :: "(string \<times> string) list option"

text \<open>The body of the \<^verbatim>\<open>try\<close> block: the first exception raised ends it.\<close>

definition day_info_body :: "pyval \<Rightarrow> pyval \<Rightarrow> int \<Rightarrow> int \<Rightarrow> bool \<Rightarrow> error + DayInfo" where
  "day_info_body target_date last_period_start_date cycle_length period_length include_details =
     (case get_cycle_day target_date last_period_start_date cycle_length of
        Inl e \<Rightarrow> Inl e
      | Inr cycle_day \<Rightarrow>
         (case get_cycle_phase cycle_day cycle_length period_length 14 of
            Inl e \<Rightarrow> Inl e
          | Inr ph \<Rightarrow>
             (case target_date of
                PyDate d \<Rightarrow>
                  (let day_info = \<lparr>date = d, cycleDay = cycle_day, phase = ph, details = None\<rparr> in
                   if include_details then
                     (case get_phase_details ph of
                        Inl e \<Rightarrow> Inl e
                      | Inr pd \<Rightarrow> Inr (day_info\<lparr>details := Some (model_dump pd)\<rparr>))
                   else Inr day_info)
              | _ \<Rightarrow> Inl (AttributeError ''isoformat''))))"

text \<open>The text of an exception, as \<^verbatim>\<open>str(e)\<close> gives it.\<close>

fun error_str :: "error \<Rightarrow> string" where
  "error_str (ValueError m) = m"
| "error_str (KeyError k) = [CHR 0x27] @ k @ [CHR 0x27]"
| "error_str (AttributeError m) = m"
| "error_str (Exception m) = m"

text \<open>The two \<^verbatim>\<open>except\<close> clauses: a \<^verbatim>\<open>ValueError\<close> is raised again as a
  \<^verbatim>\<open>ValueError\<close> with a prefix, any other exception as a plain \<^verbatim>\<open>Exception\<close>.\<close>

fun day_info_except :: "error + 'a \<Rightarrow> error + 'a" where
  "day_info_except (Inr v) = Inr v"
| "day_info_except (Inl (ValueError m)) = Inl (ValueError (''Error calculating day info: '' @ m))"
| "day_info_except (Inl e) = Inl (Exception (''An unexpected error occurred: '' @ error_str e))"

definition get_day_info :: "pyval \<Rightarrow> pyval \<Rightarrow> int \<Rightarrow> int \<Rightarrow> bool \<Rightarrow> error + DayInfo" where
  "get_day_info target_date last_period_start_date cycle_length period_length include_details =
     (if \<not> isinstance_date target_date \<or> \<not> isinstance_date last_period_start_date then
        Inl (ValueError ''target_date and last_period_start_date must be date objects.'')
      else if cycle_length \<le> 0 \<or> period_length \<le> 0 then
        Inl (ValueError ''cycle_length and period_length must be positive integers.'')
      else if (case (target_date, last_period_start_date) of
                 (PyDate t, PyDate a) \<Rightarrow> date_lt t a | _ \<Rightarrow> False) then
        Inl (ValueError ''Target date can not be before the last period start date.'')
      else
        day_info_except
          (day_info_body target_date last_period_start_date cycle_length period_length
             include_details))"

section \<open>Properties\<close>

subsection \<open>The calendar: the ordinal grows with the date\<close>

lemma div_step:
  fixes p n :: int
  assumes "0 < n"
  shows "(p + 1) div n = p div n + (if (p + 1) mod n = 0 then 1 else 0)"
proof -
  define q where "q = p div n"
  define r where "r = p mod n"
  have p: "p = q * n + r" and r: "0 \<le> r" "r < n"
    using assms by (simp_all add: q_def r_def)
  show ?thesis
  proof (cases "r = n - 1")
    case True
    then have "p + 1 = (q + 1) * n" using p by (simp add: algebra_simps)
    then show ?thesis using assms q_def by simp
  next
    case False
    then have r1: "0 \<le> r + 1" "r + 1 < n" using r by simp_all
    have eq: "p + 1 = (r + 1) + q * n" using p by simp
    have d: "(p + 1) div n = q"
      unfolding eq using r1 by simp
    have m: "(p + 1) mod n = r + 1"
      unfolding eq using r1 by simp
    show ?thesis using d m r q_def by simp
  qed
qed


lemma days_before_year_step:
  "days_before_year (y + 1) = days_before_year y + (if is_leap y then 366 else 365)"
proof -
  have a: "y div 4 = (y - 1) div 4 + (if y mod 4 = 0 then 1 else 0)"
    using div_step [of 4 "y - 1"] by simp
  have b: "y div 100 = (y - 1) div 100 + (if y mod 100 = 0 then 1 else 0)"
    using div_step [of 100 "y - 1"] by simp
  have c: "y div 400 = (y - 1) div 400 + (if y mod 400 = 0 then 1 else 0)"
    using div_step [of 400 "y - 1"] by simp
  have "(100::int) dvd 400" by simp
  then have d: "y mod 400 = 0 \<Longrightarrow> y mod 100 = 0"
    using dvd_trans [of 100 400 y] by (simp add: mod_eq_0_iff_dvd)
  have "(4::int) dvd 100" by simp
  then have e: "y mod 100 = 0 \<Longrightarrow> y mod 4 = 0"
    using dvd_trans [of 4 100 y] by (simp add: mod_eq_0_iff_dvd)
  have f: "days_before_year (y + 1) = y * 365 + y div 4 - y div 100 + y div 400"
    by (simp add: days_before_year_def Let_def)
  have g: "days_before_year y = (y - 1) * 365 + (y - 1) div 4 - (y - 1) div 100 + (y - 1) div 400"
    by (simp add: days_before_year_def Let_def)
  show ?thesis
  proof (cases "y mod 4 = 0")
    case False
    then have "y mod 100 \<noteq> 0" "y mod 400 \<noteq> 0" using d e by auto
    with False show ?thesis
      unfolding f g a b c is_leap_def by (simp add: algebra_simps)
  next
    case y4: True
    show ?thesis
    proof (cases "y mod 100 = 0")
      case False
      then have "y mod 400 \<noteq> 0" using d by auto
      with False y4 show ?thesis
        unfolding f g a b c is_leap_def by (simp add: algebra_simps)
    next
      case y100: True
      show ?thesis
      proof (cases "y mod 400 = 0")
        case False
        with y4 y100 show ?thesis
          unfolding f g a b c is_leap_def by (simp add: algebra_simps)
      next
        case True
        with y4 y100 show ?thesis
          unfolding f g a b c is_leap_def by (simp add: algebra_simps)
      qed
    qed
  qed
qed


lemma days_before_year_mono:
  assumes "y1 < y2"
  shows "days_before_year y1 + (if is_leap y1 then 366 else 365) \<le> days_before_year y2"
proof -
  have "y1 + 1 \<le> y2" using assms by simp
  then have "days_before_year (y1 + 1) \<le> days_before_year y2"
  proof (induction y2 rule: int_ge_induct)
    case base
    show ?case by simp
  next
    case (step i)
    then show ?case using days_before_year_step [of i] by (simp split: if_splits)
  qed
  then show ?thesis by (simp add: days_before_year_step)
qed

lemma days_before_month_step:
  assumes "1 \<le> m" "m \<le> 11"
  shows "days_before_month y (m + 1) = days_before_month y m + days_in_month y m"
proof -
  from assms have "m = 1 \<or> m = 2 \<or> m = 3 \<or> m = 4 \<or> m = 5 \<or> m = 6 \<or> m = 7 \<or> m = 8 \<or> m = 9
    \<or> m = 10 \<or> m = 11" by arith
  then show ?thesis
    by (elim disjE) (simp_all add: days_before_month_def days_in_month_def)
qed

lemma days_in_month_pos: "28 \<le> days_in_month y m"
  by (simp add: days_in_month_def)

lemma days_before_month_mono:
  assumes "1 \<le> m1" "m1 < m2" "m2 \<le> 12"
  shows "days_before_month y m1 + days_in_month y m1 \<le> days_before_month y m2"
proof -
  have "m1 + 1 \<le> m2" using assms by simp
  then have "m2 \<le> 12 \<longrightarrow> days_before_month y (m1 + 1) \<le> days_before_month y m2"
  proof (induction m2 rule: int_ge_induct)
    case base
    show ?case by simp
  next
    case (step i)
    have "1 \<le> i" using step.hyps assms(1) by simp
    then show ?case
      using step days_before_month_step [of i y] days_in_month_pos [of y i] by auto
  qed
  then show ?thesis using assms by (simp add: days_before_month_step)
qed

lemma days_before_month_12:
  "days_before_month y 12 + days_in_month y 12 = (if is_leap y then 366 else 365)"
  by (simp add: days_before_month_def days_in_month_def)

lemma day_of_year_bounds:
  assumes "valid_date d"
  shows "1 \<le> days_before_month (year d) (month d) + day d"
    and "days_before_month (year d) (month d) + day d \<le> (if is_leap (year d) then 366 else 365)"
proof -
  have m: "1 \<le> month d" "month d \<le> 12" and dd: "1 \<le> day d" "day d \<le> days_in_month (year d) (month d)"
    using assms by (simp_all add: valid_date_def)
  have "0 \<le> days_before_month (year d) (month d)"
    by (simp add: days_before_month_def)
  then show "1 \<le> days_before_month (year d) (month d) + day d" using dd by simp
  show "days_before_month (year d) (month d) + day d \<le> (if is_leap (year d) then 366 else 365)"
  proof (cases "month d = 12")
    case True
    then show ?thesis using dd days_before_month_12 [of "year d"] by (simp split: if_splits)
  next
    case False
    then have "month d < 12" using m by simp
    from days_before_month_mono [OF m(1) this, of "year d"] dd
    have "days_before_month (year d) (month d) + day d \<le> days_before_month (year d) 12" by simp
    then show ?thesis
      using days_before_month_12 [of "year d"] days_in_month_pos [of "year d" 12]
      by (simp split: if_splits)
  qed
qed

lemma toordinal_strict_mono:
  assumes "valid_date a" "valid_date b" "date_lt a b"
  shows "toordinal a < toordinal b"
proof -
  consider (y) "year a < year b"
    | (m) "year a = year b" "month a < month b"
    | (d) "year a = year b" "month a = month b" "day a < day b"
    using assms(3) by (auto simp: date_lt_def)
  then show ?thesis
  proof cases
    case y
    from days_before_year_mono [OF y] day_of_year_bounds(2) [OF assms(1)]
      day_of_year_bounds(1) [OF assms(2)]
    show ?thesis by (simp add: toordinal_def split: if_splits)
  next
    case m
    have "1 \<le> month a" "month b \<le> 12" "day a \<le> days_in_month (year a) (month a)" "1 \<le> day b"
      using assms(1,2) by (simp_all add: valid_date_def)
    with days_before_month_mono [of "month a" "month b" "year a"] m
    show ?thesis by (simp add: toordinal_def)
  next
    case d
    then show ?thesis by (simp add: toordinal_def)
  qed
qed

lemma date_lt_total: "\<not> date_lt a b \<Longrightarrow> a \<noteq> b \<Longrightarrow> date_lt b a"
  by (cases a, cases b) (auto simp: date_lt_def)

lemma sub_days_nonneg:
  assumes "valid_date t" "valid_date a" "\<not> date_lt t a"
  shows "0 \<le> sub_days t a"
proof (cases "t = a")
  case True
  then show ?thesis by (simp add: sub_days_def)
next
  case False
  then have "date_lt a t" using assms(3) date_lt_total by blast
  from toordinal_strict_mono [OF assms(2,1) this] show ?thesis by (simp add: sub_days_def)
qed

lemma sub_days_nonneg_not_lt:
  assumes "valid_date t" "valid_date a" "0 \<le> sub_days t a"
  shows "\<not> date_lt t a"
  using toordinal_strict_mono [OF assms(1,2)] assms(3) by (auto simp: sub_days_def)

subsection \<open>The clamp\<close>

lemma clamp_cycle_length_range:
  "21 \<le> clamp_cycle_length v \<and> clamp_cycle_length v \<le> 35"
  by (simp add: clamp_cycle_length_def MIN_CYCLE_LENGTH_def MAX_CYCLE_LENGTH_def)

lemma clamp_cycle_length_cases:
  "clamp_cycle_length v = (if v < 21 then 21 else if 35 < v then 35 else v)"
  by (simp add: clamp_cycle_length_def MIN_CYCLE_LENGTH_def MAX_CYCLE_LENGTH_def)

subsection \<open>The cycle day\<close>

text \<open>
  C1. For a target date that is not before the anchor date and a positive cycle length,
  \<open>get_cycle_day\<close> returns the difference of the two dates in days, modulo the clamped
  cycle length, plus one. The result lies between 1 and the clamped cycle length. A cycle
  length below 21 counts as 21 and one above 35 as 35: it is clamped, not rejected. For
  dates that a \<^verbatim>\<open>date\<close> object can hold the difference is not negative.
\<close>

theorem get_cycle_day_formula:
  assumes "\<not> date_lt target_date anchor_date" and "0 < cycle_length"
  shows "get_cycle_day (PyDate target_date) (PyDate anchor_date) cycle_length =
           Inr (sub_days target_date anchor_date mod clamp_cycle_length cycle_length + 1)
       \<and> 1 \<le> sub_days target_date anchor_date mod clamp_cycle_length cycle_length + 1
       \<and> sub_days target_date anchor_date mod clamp_cycle_length cycle_length + 1
           \<le> clamp_cycle_length cycle_length
       \<and> clamp_cycle_length cycle_length =
           (if cycle_length < 21 then 21 else if 35 < cycle_length then 35 else cycle_length)
       \<and> (valid_date target_date \<and> valid_date anchor_date \<longrightarrow>
            0 \<le> sub_days target_date anchor_date)"
proof -
  let ?L = "clamp_cycle_length cycle_length"
  let ?diff = "sub_days target_date anchor_date"
  have pos: "0 < ?L"
    using clamp_cycle_length_range [of cycle_length] by simp
  have ret: "get_cycle_day (PyDate target_date) (PyDate anchor_date) cycle_length =
           Inr (?diff mod ?L + 1)"
    using assms by (simp add: Let_def)
  have lo: "1 \<le> ?diff mod ?L + 1"
    using pos by simp
  have "?diff mod ?L < ?L"
    using pos by simp
  then have hi: "?diff mod ?L + 1 \<le> ?L"
    by simp
  have nonneg: "valid_date target_date \<and> valid_date anchor_date \<longrightarrow> 0 \<le> ?diff"
    using sub_days_nonneg assms(1) by blast
  from ret lo hi clamp_cycle_length_cases [of cycle_length] nonneg
  show ?thesis by blast
qed

theorem get_cycle_day_formula_witness:
  "\<not> date_lt \<lparr>year = 2024, month = 3, day = 10\<rparr> \<lparr>year = 2024, month = 2, day = 15\<rparr>
   \<and> (0::int) < 40
   \<and> valid_date \<lparr>year = 2024, month = 3, day = 10\<rparr>
   \<and> valid_date \<lparr>year = 2024, month = 2, day = 15\<rparr>
   \<and> get_cycle_day (PyDate \<lparr>year = 2024, month = 3, day = 10\<rparr>)
        (PyDate \<lparr>year = 2024, month = 2, day = 15\<rparr>) 40 = Inr 25
   \<and> clamp_cycle_length 40 = 35
   \<and> sub_days \<lparr>year = 2024, month = 3, day = 10\<rparr> \<lparr>year = 2024, month = 2, day = 15\<rparr> = 24"
proof -
  have h1: "\<not> date_lt \<lparr>year = 2024, month = 3, day = 10\<rparr> \<lparr>year = 2024, month = 2, day = 15\<rparr>"
    by (simp add: date_lt_def)
  have h2: "(0::int) < 40" by simp
  have d: "sub_days \<lparr>year = 2024, month = 3, day = 10\<rparr> \<lparr>year = 2024, month = 2, day = 15\<rparr> = 24"
    by (simp add: sub_days_def toordinal_def days_before_year_def days_before_month_def
        is_leap_def Let_def)
  have c: "clamp_cycle_length 40 = 35"
    by (simp add: clamp_cycle_length_cases)
  have v: "valid_date \<lparr>year = 2024, month = 3, day = 10\<rparr>"
    "valid_date \<lparr>year = 2024, month = 2, day = 15\<rparr>"
    by (simp_all add: valid_date_def days_in_month_def is_leap_def)
  from get_cycle_day_formula [OF h1 h2] show ?thesis
    unfolding d c using h1 v by simp
qed

subsection \<open>The phase\<close>

lemma get_cycle_phase_ok:
  assumes "0 < cycle_day" "0 < cycle_length" "0 < period_length" "0 < luteal_phase_length"
    and "period_length \<le> cycle_length"
  shows "get_cycle_phase cycle_day cycle_length period_length luteal_phase_length =
     Inr (if cycle_day \<le> period_length then ''menstrual''
          else if clamp_cycle_length cycle_length - luteal_phase_length \<le> cycle_day then ''luteal''
          else if clamp_cycle_length cycle_length - luteal_phase_length - 1 \<le> cycle_day
                  \<and> cycle_day \<le> clamp_cycle_length cycle_length - luteal_phase_length + 1
               then ''ovulatory''
          else ''follicular'')"
  using assms by (simp add: get_cycle_phase_def Let_def)

text \<open>
  C2. When the cycle day, the cycle length, the period length and the luteal phase length
  are positive and the period is not longer than the cycle, \<open>get_cycle_phase\<close> returns
  one of the four phases, the first that matches in this order: menstrual when the cycle
  day is at most the period length; luteal when it is at least the clamped cycle length
  minus the luteal phase length; ovulatory when it lies within one day of that bound;
  follicular otherwise. In particular a cycle day within the period is menstrual.
\<close>

theorem get_cycle_phase_first_match:
  assumes "0 < cycle_day" "0 < cycle_length" "0 < period_length" "0 < luteal_phase_length"
    and "period_length \<le> cycle_length"
  shows "get_cycle_phase cycle_day cycle_length period_length luteal_phase_length =
     Inr (if cycle_day \<le> period_length then ''menstrual''
          else if clamp_cycle_length cycle_length - luteal_phase_length \<le> cycle_day then ''luteal''
          else if clamp_cycle_length cycle_length - luteal_phase_length - 1 \<le> cycle_day
                  \<and> cycle_day \<le> clamp_cycle_length cycle_length - luteal_phase_length + 1
               then ''ovulatory''
          else ''follicular'')
    \<and> (\<exists>p \<in> VALID_PHASES.
          get_cycle_phase cycle_day cycle_length period_length luteal_phase_length = Inr p)
    \<and> (cycle_day \<le> period_length \<longrightarrow>
          get_cycle_phase cycle_day cycle_length period_length luteal_phase_length = Inr ''menstrual'')"
  unfolding get_cycle_phase_ok [OF assms] by (simp add: VALID_PHASES_def)

theorem get_cycle_phase_first_match_witness:
  "(0::int) < 13 \<and> (0::int) < 28 \<and> (0::int) < 5 \<and> (0::int) < 14 \<and> (5::int) \<le> 28
   \<and> get_cycle_phase 13 28 5 14 = Inr ''ovulatory''
   \<and> ''ovulatory'' \<in> VALID_PHASES"
  using get_cycle_phase_first_match [of 13 28 5 14]
  by (simp add: clamp_cycle_length_cases VALID_PHASES_def)

text \<open>
  C6. With all four arguments positive, a period length greater than the cycle length
  makes \<open>get_cycle_phase\<close> raise a \<^verbatim>\<open>ValueError\<close>; no phase is returned.
\<close>

theorem get_cycle_phase_period_too_long:
  assumes "0 < cycle_day" "0 < cycle_length" "0 < period_length" "0 < luteal_phase_length"
    and "cycle_length < period_length"
  shows "get_cycle_phase cycle_day cycle_length period_length luteal_phase_length =
     Inl (ValueError ''Period length cannot be longer than cycle length.'')"
  using assms by (simp add: get_cycle_phase_def)

theorem get_cycle_phase_period_too_long_witness:
  "(0::int) < 3 \<and> (0::int) < 28 \<and> (0::int) < 29 \<and> (0::int) < 14 \<and> (28::int) < 29
   \<and> get_cycle_phase 3 28 29 14 =
       Inl (ValueError ''Period length cannot be longer than cycle length.'')"
  using get_cycle_phase_period_too_long [of 3 28 29 14] by simp

text \<open>
  C7. With a positive cycle length, a target date before the anchor date makes
  \<open>get_cycle_day\<close> raise a \<^verbatim>\<open>ValueError\<close> that says so; no day number is returned.
\<close>

theorem get_cycle_day_target_before_anchor:
  assumes "date_lt target_date anchor_date" and "0 < cycle_length"
  shows "get_cycle_day (PyDate target_date) (PyDate anchor_date) cycle_length =
     Inl (ValueError ''Target date can not be before the last period start date.'')"
  using assms by simp

theorem get_cycle_day_target_before_anchor_witness:
  "date_lt \<lparr>year = 2024, month = 2, day = 15\<rparr> \<lparr>year = 2024, month = 3, day = 10\<rparr>
   \<and> (0::int) < 28
   \<and> get_cycle_day (PyDate \<lparr>year = 2024, month = 2, day = 15\<rparr>)
        (PyDate \<lparr>year = 2024, month = 3, day = 10\<rparr>) 28 =
       Inl (ValueError ''Target date can not be before the last period start date.'')"
proof -
  have h: "date_lt \<lparr>year = 2024, month = 2, day = 15\<rparr> \<lparr>year = 2024, month = 3, day = 10\<rparr>"
    by (simp add: date_lt_def)
  from get_cycle_day_target_before_anchor [OF h, of 28] h show ?thesis by simp
qed

text \<open>
  C9. As stated the claim fails: a day in the upper part of the three-day window that is
  still within the period is menstrual, not luteal.
\<close>

theorem ovulatory_window_upper_day_menstrual:
  "(0::int) < 7 \<and> (0::int) < 21 \<and> (7::int) \<le> 21 \<and> (0::int) < 14
   \<and> (7::int) = (clamp_cycle_length 21 - 14 - 1) + 1
   \<and> (7::int) \<ge> clamp_cycle_length 21 - 14
   \<and> get_cycle_phase 7 21 7 14 = Inr ''menstrual''
   \<and> get_cycle_phase 7 21 7 14 \<noteq> Inr ''luteal''"
  by (simp add: get_cycle_phase_def clamp_cycle_length_cases)

text \<open>
  C9, amended. With a luteal phase length of 14 and the preconditions of
  \<open>get_cycle_phase\<close> met, the result is ovulatory exactly when the cycle day is the
  clamped cycle length minus 15 and is greater than the period length. The two upper days
  of the three-day window, the clamped cycle length minus 14 and minus 13, pass the luteal
  test and are never ovulatory: they are luteal when they are past the period, and
  menstrual when they are within it.
\<close>

theorem ovulatory_single_day:
  assumes "0 < cycle_day" "0 < cycle_length" "0 < period_length"
    and "period_length \<le> cycle_length"
  shows "(get_cycle_phase cycle_day cycle_length period_length 14 = Inr ''ovulatory'' \<longleftrightarrow>
            cycle_day = clamp_cycle_length cycle_length - 15 \<and> period_length < cycle_day)
    \<and> (cycle_day = clamp_cycle_length cycle_length - 14
          \<or> cycle_day = clamp_cycle_length cycle_length - 13 \<longrightarrow>
        clamp_cycle_length cycle_length - 14 \<le> cycle_day
        \<and> get_cycle_phase cycle_day cycle_length period_length 14 =
            Inr (if cycle_day \<le> period_length then ''menstrual'' else ''luteal''))"
proof -
  have ok: "get_cycle_phase cycle_day cycle_length period_length 14 =
     Inr (if cycle_day \<le> period_length then ''menstrual''
          else if clamp_cycle_length cycle_length - 14 \<le> cycle_day then ''luteal''
          else if clamp_cycle_length cycle_length - 14 - 1 \<le> cycle_day
                  \<and> cycle_day \<le> clamp_cycle_length cycle_length - 14 + 1
               then ''ovulatory''
          else ''follicular'')"
    using get_cycle_phase_ok [of cycle_day cycle_length period_length 14] assms by simp
  show ?thesis unfolding ok by auto
qed

theorem ovulatory_single_day_witness:
  "(0::int) < 13 \<and> (0::int) < 28 \<and> (0::int) < 5 \<and> (5::int) \<le> 28
   \<and> get_cycle_phase 13 28 5 14 = Inr ''ovulatory''
   \<and> (13::int) = clamp_cycle_length 28 - 15
   \<and> get_cycle_phase (clamp_cycle_length 28 - 14) 28 5 14 = Inr ''luteal''
   \<and> get_cycle_phase (clamp_cycle_length 28 - 13) 28 5 14 = Inr ''luteal''
   \<and> get_cycle_phase (clamp_cycle_length 21 - 14) 21 7 14 = Inr ''menstrual''"
  using ovulatory_single_day [of 13 28 5] ovulatory_single_day [of 14 28 5]
    ovulatory_single_day [of 15 28 5] ovulatory_single_day [of 7 21 7]
  by (simp add: clamp_cycle_length_cases)

text \<open>
  C10. The test that the period is not longer than the cycle uses the cycle length as
  given, not the clamped one. With a cycle length above 35 and a period length above 35
  that does not exceed it, \<open>get_cycle_phase\<close> does not fail although the period is longer
  than the clamped cycle; every cycle day within the period is menstrual, and so is every
  cycle day that \<open>get_cycle_day\<close> returns for that cycle length, which is between 1 and 35.
\<close>

theorem period_checked_against_raw_cycle_length:
  assumes "35 < cycle_length" "35 < period_length" "period_length \<le> cycle_length"
    and "0 < cycle_day" "0 < luteal_phase_length"
  shows "clamp_cycle_length cycle_length < period_length
    \<and> (\<exists>p. get_cycle_phase cycle_day cycle_length period_length luteal_phase_length = Inr p)
    \<and> (cycle_day \<le> period_length \<longrightarrow>
          get_cycle_phase cycle_day cycle_length period_length luteal_phase_length =
            Inr ''menstrual'')
    \<and> (\<forall>t a d. get_cycle_day t a cycle_length = Inr d \<longrightarrow>
          1 \<le> d \<and> d \<le> 35
          \<and> get_cycle_phase d cycle_length period_length luteal_phase_length = Inr ''menstrual'')"
proof -
  have c: "clamp_cycle_length cycle_length = 35"
    using assms(1) by (simp add: clamp_cycle_length_cases)
  have pos: "0 < cycle_length" "0 < period_length" using assms by simp_all
  have ok: "\<And>cd. 0 < cd \<Longrightarrow> get_cycle_phase cd cycle_length period_length luteal_phase_length =
     Inr (if cd \<le> period_length then ''menstrual''
          else if 35 - luteal_phase_length \<le> cd then ''luteal''
          else if 35 - luteal_phase_length - 1 \<le> cd \<and> cd \<le> 35 - luteal_phase_length + 1
               then ''ovulatory''
          else ''follicular'')"
    using get_cycle_phase_ok [OF _ pos(1) pos(2) assms(5) assms(3)] unfolding c by simp
  have day: "1 \<le> d \<and> d \<le> 35" if "get_cycle_day t a cycle_length = Inr d" for t a d
  proof (cases t)
    case (PyDate td)
    show ?thesis
    proof (cases a)
      case (PyDate ad)
      have "0 \<le> sub_days td ad mod 35" "sub_days td ad mod 35 < 35" by simp_all
      with that show ?thesis
        using pos(1) \<open>t = PyDate td\<close> PyDate c
        by (auto simp: Let_def split: if_splits)
    qed (use that \<open>t = PyDate td\<close> in simp_all)
  qed (use that in simp_all)
  have "get_cycle_phase d cycle_length period_length luteal_phase_length = Inr ''menstrual''"
    if "get_cycle_day t a cycle_length = Inr d" for t a d
    using day [OF that] ok [of d] assms(2) by simp
  with day ok [OF assms(4)] c assms(2) show ?thesis by auto
qed

theorem period_checked_against_raw_cycle_length_witness:
  "(35::int) < 40 \<and> (35::int) < 36 \<and> (36::int) \<le> 40 \<and> (0::int) < 10 \<and> (0::int) < 14
   \<and> clamp_cycle_length 40 < 36
   \<and> get_cycle_phase 10 40 36 14 = Inr ''menstrual''
   \<and> get_cycle_day (PyDate \<lparr>year = 2024, month = 3, day = 10\<rparr>)
        (PyDate \<lparr>year = 2024, month = 2, day = 15\<rparr>) 40 = Inr 25
   \<and> get_cycle_phase 25 40 36 14 = Inr ''menstrual''"
proof -
  have d: "get_cycle_day (PyDate \<lparr>year = 2024, month = 3, day = 10\<rparr>)
        (PyDate \<lparr>year = 2024, month = 2, day = 15\<rparr>) 40 = Inr 25"
    by (simp add: date_lt_def sub_days_def toordinal_def days_before_year_def
        days_before_month_def is_leap_def Let_def clamp_cycle_length_cases)
  have a: "clamp_cycle_length 40 < 36"
    and b: "get_cycle_phase 10 40 36 14 = Inr ''menstrual''"
    and c: "\<forall>t a d. get_cycle_day t a 40 = Inr d \<longrightarrow>
          1 \<le> d \<and> d \<le> 35 \<and> get_cycle_phase d 40 36 14 = Inr ''menstrual''"
    using period_checked_against_raw_cycle_length [of 40 36 10 14] by simp_all
  from c d have "get_cycle_phase 25 40 36 14 = Inr ''menstrual''" by blast
  with a b d show ?thesis by simp
qed

subsection \<open>Periodicity\<close>

text \<open>
  C4. The target date that lies \<open>k\<close> whole clamped cycles after the anchor date, for a
  natural number \<open>k\<close> and a positive cycle length, is day 1 of the cycle; so is the anchor
  date itself.
\<close>

theorem get_cycle_day_periodic:
  assumes "valid_date target_date" "valid_date anchor_date" "0 < cycle_length" "0 \<le> k"
    and "sub_days target_date anchor_date = k * clamp_cycle_length cycle_length"
  shows "get_cycle_day (PyDate target_date) (PyDate anchor_date) cycle_length = Inr 1
    \<and> get_cycle_day (PyDate anchor_date) (PyDate anchor_date) cycle_length = Inr 1"
proof -
  have "0 \<le> clamp_cycle_length cycle_length"
    using clamp_cycle_length_range [of cycle_length] by simp
  then have "0 \<le> sub_days target_date anchor_date"
    using assms(4,5) by simp
  then have "\<not> date_lt target_date anchor_date"
    using sub_days_nonneg_not_lt assms(1,2) by blast
  then have "get_cycle_day (PyDate target_date) (PyDate anchor_date) cycle_length = Inr 1"
    using assms(3,5) by (simp add: Let_def)
  moreover have "get_cycle_day (PyDate anchor_date) (PyDate anchor_date) cycle_length = Inr 1"
    using assms(3) by (simp add: Let_def date_lt_def sub_days_def)
  ultimately show ?thesis by simp
qed

theorem get_cycle_day_periodic_witness:
  "valid_date \<lparr>year = 2024, month = 4, day = 11\<rparr>
   \<and> valid_date \<lparr>year = 2024, month = 2, day = 15\<rparr>
   \<and> (0::int) < 28 \<and> (0::int) \<le> 2
   \<and> sub_days \<lparr>year = 2024, month = 4, day = 11\<rparr> \<lparr>year = 2024, month = 2, day = 15\<rparr>
        = 2 * clamp_cycle_length 28
   \<and> get_cycle_day (PyDate \<lparr>year = 2024, month = 4, day = 11\<rparr>)
        (PyDate \<lparr>year = 2024, month = 2, day = 15\<rparr>) 28 = Inr 1
   \<and> get_cycle_day (PyDate \<lparr>year = 2024, month = 2, day = 15\<rparr>)
        (PyDate \<lparr>year = 2024, month = 2, day = 15\<rparr>) 28 = Inr 1"
proof -
  have v: "valid_date \<lparr>year = 2024, month = 4, day = 11\<rparr>"
    "valid_date \<lparr>year = 2024, month = 2, day = 15\<rparr>"
    by (simp_all add: valid_date_def days_in_month_def is_leap_def)
  have d: "sub_days \<lparr>year = 2024, month = 4, day = 11\<rparr> \<lparr>year = 2024, month = 2, day = 15\<rparr>
        = 2 * clamp_cycle_length 28"
    by (simp add: sub_days_def toordinal_def days_before_year_def days_before_month_def
        is_leap_def Let_def clamp_cycle_length_cases)
  from get_cycle_day_periodic [OF v _ _ d] v d show ?thesis by simp
qed

subsection \<open>Day information\<close>

text \<open>
  C5. For the target date 2024-03-10, the anchor date 2024-02-15, a cycle length of 28
  and a period length of 5, without details, \<open>get_day_info\<close> succeeds: the dates are 24
  days apart, the cycle day is 25, the phase is luteal, and the details are absent.
\<close>

theorem get_day_info_scenario_1:
  "get_day_info (PyDate \<lparr>year = 2024, month = 3, day = 10\<rparr>)
     (PyDate \<lparr>year = 2024, month = 2, day = 15\<rparr>) 28 5 False =
   Inr \<lparr>date = \<lparr>year = 2024, month = 3, day = 10\<rparr>, cycleDay = 25, phase = ''luteal'',
        details = None\<rparr>
   \<and> sub_days \<lparr>year = 2024, month = 3, day = 10\<rparr> \<lparr>year = 2024, month = 2, day = 15\<rparr> = 24
   \<and> clamp_cycle_length 28 = 28
   \<and> get_cycle_day (PyDate \<lparr>year = 2024, month = 3, day = 10\<rparr>)
        (PyDate \<lparr>year = 2024, month = 2, day = 15\<rparr>) 28 = Inr 25
   \<and> get_cycle_phase 25 28 5 14 = Inr ''luteal''"
proof -
  have d: "sub_days \<lparr>year = 2024, month = 3, day = 10\<rparr> \<lparr>year = 2024, month = 2, day = 15\<rparr> = 24"
    by (simp add: sub_days_def toordinal_def days_before_year_def days_before_month_def
        is_leap_def Let_def)
  have c: "clamp_cycle_length 28 = 28"
    by (simp add: clamp_cycle_length_cases)
  have cd: "get_cycle_day (PyDate \<lparr>year = 2024, month = 3, day = 10\<rparr>)
     (PyDate \<lparr>year = 2024, month = 2, day = 15\<rparr>) 28 = Inr 25"
    by (simp add: date_lt_def d c)
  have ph: "get_cycle_phase 25 28 5 14 = Inr ''luteal''"
    by (simp add: get_cycle_phase_def c)
  have "get_day_info (PyDate \<lparr>year = 2024, month = 3, day = 10\<rparr>)
     (PyDate \<lparr>year = 2024, month = 2, day = 15\<rparr>) 28 5 False =
   Inr \<lparr>date = \<lparr>year = 2024, month = 3, day = 10\<rparr>, cycleDay = 25, phase = ''luteal'',
        details = None\<rparr>"
    by (simp add: get_day_info_def day_info_body_def d c ph date_lt_def Let_def)
  with d c cd ph show ?thesis by simp
qed

theorem get_day_info_scenario_1_witness:
  "\<exists>info. get_day_info (PyDate \<lparr>year = 2024, month = 3, day = 10\<rparr>)
       (PyDate \<lparr>year = 2024, month = 2, day = 15\<rparr>) 28 5 False = Inr info
     \<and> cycleDay info = 25 \<and> phase info = ''luteal'' \<and> details info = None"
  using get_day_info_scenario_1 by simp

subsection \<open>Phase details\<close>

lemma getitem_PHASE_DETAILS:
  "getitem PHASE_DETAILS ''menstrual'' = Inr menstrual_details"
  "getitem PHASE_DETAILS ''follicular'' = Inr follicular_details"
  "getitem PHASE_DETAILS ''ovulatory'' = Inr ovulatory_details"
  "getitem PHASE_DETAILS ''luteal'' = Inr luteal_details"
  by (simp_all add: getitem_def PHASE_DETAILS_def)

lemma get_phase_details_cases:
  "get_phase_details ph =
     Inr (if ph = ''menstrual'' then menstrual_details
          else if ph = ''ovulatory'' then ovulatory_details
          else if ph = ''luteal'' then luteal_details
          else follicular_details)"
  by (simp add: get_phase_details_def VALID_PHASES_def getitem_PHASE_DETAILS)

text \<open>
  C8. \<open>get_phase_details\<close> never fails. For each of the four phases it returns the record
  of that phase in the table, and each of the four records has a non-empty text in each
  of its four fields. For any other string it returns the record of the follicular phase.
\<close>

theorem get_phase_details_total:
  "get_phase_details ''menstrual'' = Inr menstrual_details
   \<and> get_phase_details ''follicular'' = Inr follicular_details
   \<and> get_phase_details ''ovulatory'' = Inr ovulatory_details
   \<and> get_phase_details ''luteal'' = Inr luteal_details
   \<and> populated menstrual_details \<and> populated follicular_details
   \<and> populated ovulatory_details \<and> populated luteal_details
   \<and> (ph \<in> VALID_PHASES \<longrightarrow>
        (\<exists>pd. PHASE_DETAILS ph = Some pd \<and> get_phase_details ph = Inr pd))
   \<and> (ph \<notin> VALID_PHASES \<longrightarrow> get_phase_details ph = Inr follicular_details)
   \<and> (\<exists>pd. get_phase_details ph = Inr pd \<and> populated pd)"
proof -
  have pop: "populated menstrual_details" "populated follicular_details"
    "populated ovulatory_details" "populated luteal_details"
    by (simp_all add: populated_def menstrual_details_def follicular_details_def
        ovulatory_details_def luteal_details_def)
  have other: "get_phase_details ph = Inr follicular_details" if "ph \<notin> VALID_PHASES"
    using that by (simp add: get_phase_details_cases VALID_PHASES_def)
  have table: "\<exists>pd. PHASE_DETAILS ph = Some pd \<and> get_phase_details ph = Inr pd"
    if "ph \<in> VALID_PHASES"
  proof -
    from that consider "ph = ''menstrual''" | "ph = ''follicular''" | "ph = ''ovulatory''"
      | "ph = ''luteal''"
      unfolding VALID_PHASES_def by blast
    then show ?thesis
      by cases (simp_all add: get_phase_details_cases PHASE_DETAILS_def)
  qed
  have "\<exists>pd. get_phase_details ph = Inr pd \<and> populated pd"
    using pop by (simp add: get_phase_details_cases)
  with pop other table show ?thesis by (simp add: get_phase_details_cases)
qed

theorem get_phase_details_total_witness:
  "''premenstrual'' \<notin> VALID_PHASES
   \<and> get_phase_details ''premenstrual'' = Inr follicular_details
   \<and> populated follicular_details
   \<and> ''luteal'' \<in> VALID_PHASES
   \<and> PHASE_DETAILS ''luteal'' = Some luteal_details
   \<and> get_phase_details ''luteal'' = Inr luteal_details"
proof -
  have h: "''premenstrual'' \<notin> VALID_PHASES" "''luteal'' \<in> VALID_PHASES"
    by (simp_all add: VALID_PHASES_def)
  have "\<exists>pd. PHASE_DETAILS ''luteal'' = Some pd \<and> get_phase_details ''luteal'' = Inr pd"
    using get_phase_details_total [of "''luteal''"] h(2) by blast
  moreover have "get_phase_details ''luteal'' = Inr luteal_details"
    using get_phase_details_total [of "''luteal''"] by blast
  ultimately have "PHASE_DETAILS ''luteal'' = Some luteal_details" by auto
  with h get_phase_details_total [of "''premenstrual''"] show ?thesis by simp
qed

subsection \<open>Errors of \<open>get_day_info\<close>\<close>

lemma day_info_body_ok:
  assumes "0 < cycle_length" "0 < period_length" "\<not> date_lt td ad"
    and "period_length \<le> cycle_length"
  shows "\<exists>info. day_info_body (PyDate td) (PyDate ad) cycle_length period_length include_details
           = Inr info"
proof -
  let ?d = "sub_days td ad mod clamp_cycle_length cycle_length + 1"
  have cd: "get_cycle_day (PyDate td) (PyDate ad) cycle_length = Inr ?d"
    using assms(1,3) by (simp add: Let_def)
  have "0 < clamp_cycle_length cycle_length"
    using clamp_cycle_length_range [of cycle_length] by simp
  then have "0 \<le> sub_days td ad mod clamp_cycle_length cycle_length" by simp
  then have "0 < ?d" by simp
  from get_cycle_phase_ok [OF this assms(1,2) _ assms(4), of 14]
  obtain ph where ph: "get_cycle_phase ?d cycle_length period_length 14 = Inr ph" by simp
  show ?thesis
    unfolding day_info_body_def cd
    by (simp add: ph get_phase_details_cases Let_def)
qed

lemma day_info_body_period_too_long:
  assumes "0 < cycle_length" "\<not> date_lt td ad" "cycle_length < period_length"
  shows "day_info_body (PyDate td) (PyDate ad) cycle_length period_length include_details
           = Inl (ValueError ''Period length cannot be longer than cycle length.'')"
proof -
  let ?d = "sub_days td ad mod clamp_cycle_length cycle_length + 1"
  have cd: "get_cycle_day (PyDate td) (PyDate ad) cycle_length = Inr ?d"
    using assms(1,2) by (simp add: Let_def)
  have "0 < clamp_cycle_length cycle_length"
    using clamp_cycle_length_range [of cycle_length] by simp
  then have "0 \<le> sub_days td ad mod clamp_cycle_length cycle_length" by simp
  then have "0 < ?d" by simp
  then have "get_cycle_phase ?d cycle_length period_length 14 =
      Inl (ValueError ''Period length cannot be longer than cycle length.'')"
    using assms(1,3) by (simp add: get_cycle_phase_def)
  then show ?thesis
    unfolding day_info_body_def cd by simp
qed

lemma get_day_info_step_2:
  assumes "0 < cycle_length" "0 < period_length" "\<not> date_lt td ad"
  shows "get_day_info (PyDate td) (PyDate ad) cycle_length period_length include_details =
     day_info_except
       (day_info_body (PyDate td) (PyDate ad) cycle_length period_length include_details)"
  using assms by (simp add: get_day_info_def)


text \<open>
  C3. As stated the claim fails: the three checks that \<open>get_day_info\<close> makes itself stand
  before the \<^verbatim>\<open>try\<close> block, so their messages are raised as they are, without the
  prefix that the \<^verbatim>\<open>except\<close> clause puts before the message of an inner error.
\<close>

theorem get_day_info_step_1_unprefixed:
  "get_day_info (PyDate \<lparr>year = 2024, month = 3, day = 10\<rparr>)
     (PyDate \<lparr>year = 2024, month = 2, day = 15\<rparr>) 0 5 False =
     Inl (ValueError ''cycle_length and period_length must be positive integers.'')
   \<and> \<not> prefix ''Error calculating day info: ''
         ''cycle_length and period_length must be positive integers.''
   \<and> get_day_info (PyDate \<lparr>year = 2024, month = 2, day = 15\<rparr>)
     (PyDate \<lparr>year = 2024, month = 3, day = 10\<rparr>) 28 5 False =
     Inl (ValueError ''Target date can not be before the last period start date.'')
   \<and> \<not> prefix ''Error calculating day info: ''
         ''Target date can not be before the last period start date.''
   \<and> get_day_info PyNone (PyDate \<lparr>year = 2024, month = 2, day = 15\<rparr>) 28 5 False =
     Inl (ValueError ''target_date and last_period_start_date must be date objects.'')
   \<and> \<not> prefix ''Error calculating day info: ''
         ''target_date and last_period_start_date must be date objects.''"
  by (simp add: get_day_info_def date_lt_def)

text \<open>
  C3, amended. A failure of one of the checks that \<open>get_day_info\<close> makes itself (an
  argument that is not a date, a cycle length or period length that is not positive, a
  target date before the anchor date) raises a \<^verbatim>\<open>ValueError\<close> with the message of that
  check as it is, without a prefix. Once these checks have passed, a \<^verbatim>\<open>ValueError\<close> of
  \<open>get_cycle_day\<close> or \<open>get_cycle_phase\<close> is raised again as a \<^verbatim>\<open>ValueError\<close> whose
  message is the inner message behind the prefix \<^verbatim>\<open>Error calculating day info: \<close>; the
  one that occurs is the period longer than the cycle, and otherwise the call succeeds.
  Any other exception in the \<^verbatim>\<open>try\<close> block is raised again as a plain
  \<^verbatim>\<open>Exception\<close> whose message is the inner text behind
  \<^verbatim>\<open>An unexpected error occurred: \<close>.
\<close>

theorem get_day_info_errors:
  "(\<not> isinstance_date t \<or> \<not> isinstance_date a \<longrightarrow>
      get_day_info t a cycle_length period_length include_details =
        Inl (ValueError ''target_date and last_period_start_date must be date objects.''))
   \<and> (cycle_length \<le> 0 \<or> period_length \<le> 0 \<longrightarrow>
      get_day_info (PyDate td) (PyDate ad) cycle_length period_length include_details =
        Inl (ValueError ''cycle_length and period_length must be positive integers.''))
   \<and> (0 < cycle_length \<and> 0 < period_length \<and> date_lt td ad \<longrightarrow>
      get_day_info (PyDate td) (PyDate ad) cycle_length period_length include_details =
        Inl (ValueError ''Target date can not be before the last period start date.''))
   \<and> (0 < cycle_length \<and> 0 < period_length \<and> \<not> date_lt td ad \<longrightarrow>
        (\<forall>m. get_cycle_day (PyDate td) (PyDate ad) cycle_length = Inl (ValueError m) \<longrightarrow>
           get_day_info (PyDate td) (PyDate ad) cycle_length period_length include_details =
             Inl (ValueError (''Error calculating day info: '' @ m)))
      \<and> (\<forall>d m. get_cycle_day (PyDate td) (PyDate ad) cycle_length = Inr d
              \<and> get_cycle_phase d cycle_length period_length 14 = Inl (ValueError m) \<longrightarrow>
           get_day_info (PyDate td) (PyDate ad) cycle_length period_length include_details =
             Inl (ValueError (''Error calculating day info: '' @ m)))
      \<and> (cycle_length < period_length \<longrightarrow>
           get_day_info (PyDate td) (PyDate ad) cycle_length period_length include_details =
             Inl (ValueError
               ''Error calculating day info: Period length cannot be longer than cycle length.''))
      \<and> (period_length \<le> cycle_length \<longrightarrow>
           (\<exists>info. get_day_info (PyDate td) (PyDate ad) cycle_length period_length
              include_details = Inr info)))
   \<and> ((\<forall>m. e \<noteq> ValueError m) \<longrightarrow>
        day_info_except (Inl e :: error + DayInfo) =
          Inl (Exception (''An unexpected error occurred: '' @ error_str e)))"
proof -
  let ?call = "get_day_info (PyDate td) (PyDate ad) cycle_length period_length include_details"
  let ?body = "day_info_body (PyDate td) (PyDate ad) cycle_length period_length include_details"
  have s1: "get_day_info t a cycle_length period_length include_details =
        Inl (ValueError ''target_date and last_period_start_date must be date objects.'')"
    if "\<not> isinstance_date t \<or> \<not> isinstance_date a"
    using that by (auto simp: get_day_info_def)
  have s2: "?call = Inl (ValueError ''cycle_length and period_length must be positive integers.'')"
    if "cycle_length \<le> 0 \<or> period_length \<le> 0"
    using that by (auto simp: get_day_info_def)
  have s3: "?call = Inl (ValueError ''Target date can not be before the last period start date.'')"
    if "0 < cycle_length \<and> 0 < period_length \<and> date_lt td ad"
    using that by (simp add: get_day_info_def)
  have inner: "(\<forall>m. get_cycle_day (PyDate td) (PyDate ad) cycle_length = Inl (ValueError m) \<longrightarrow>
           ?call = Inl (ValueError (''Error calculating day info: '' @ m)))
      \<and> (\<forall>d m. get_cycle_day (PyDate td) (PyDate ad) cycle_length = Inr d
              \<and> get_cycle_phase d cycle_length period_length 14 = Inl (ValueError m) \<longrightarrow>
           ?call = Inl (ValueError (''Error calculating day info: '' @ m)))
      \<and> (cycle_length < period_length \<longrightarrow>
           ?call = Inl (ValueError
               ''Error calculating day info: Period length cannot be longer than cycle length.''))
      \<and> (period_length \<le> cycle_length \<longrightarrow> (\<exists>info. ?call = Inr info))"
    if h: "0 < cycle_length \<and> 0 < period_length \<and> \<not> date_lt td ad"
  proof -
    have call: "?call = day_info_except ?body"
      using h by (simp add: get_day_info_step_2)
    have a: "?call = Inl (ValueError (''Error calculating day info: '' @ m))"
      if "get_cycle_day (PyDate td) (PyDate ad) cycle_length = Inl (ValueError m)" for m
      unfolding call day_info_body_def that by simp
    have b: "?call = Inl (ValueError (''Error calculating day info: '' @ m))"
      if "get_cycle_day (PyDate td) (PyDate ad) cycle_length = Inr d
              \<and> get_cycle_phase d cycle_length period_length 14 = Inl (ValueError m)" for d m
    proof -
      from that have "?body = Inl (ValueError m)"
        unfolding day_info_body_def by simp
      then show ?thesis unfolding call by simp
    qed
    have c: "?call = Inl (ValueError
               ''Error calculating day info: Period length cannot be longer than cycle length.'')"
      if "cycle_length < period_length"
      unfolding call using day_info_body_period_too_long [of cycle_length td ad period_length] h that
      by simp
    have d: "\<exists>info. ?call = Inr info" if "period_length \<le> cycle_length"
    proof -
      from day_info_body_ok [of cycle_length period_length td ad include_details] h that
      obtain info where "?body = Inr info" by blast
      then show ?thesis unfolding call by simp
    qed
    from a b c d show ?thesis by blast
  qed
  have unexpected: "day_info_except (Inl e :: error + DayInfo) =
          Inl (Exception (''An unexpected error occurred: '' @ error_str e))"
    if "\<forall>m. e \<noteq> ValueError m"
    using that by (cases e) simp_all
  from s1 s2 s3 inner unexpected show ?thesis by blast
qed


theorem get_day_info_errors_witness:
  "\<not> isinstance_date PyNone
   \<and> get_day_info PyNone (PyDate \<lparr>year = 2024, month = 2, day = 15\<rparr>) 28 5 False =
       Inl (ValueError ''target_date and last_period_start_date must be date objects.'')
   \<and> (0::int) \<le> 0
   \<and> get_day_info (PyDate \<lparr>year = 2024, month = 3, day = 10\<rparr>)
         (PyDate \<lparr>year = 2024, month = 2, day = 15\<rparr>) 0 5 False =
       Inl (ValueError ''cycle_length and period_length must be positive integers.'')
   \<and> date_lt \<lparr>year = 2024, month = 2, day = 15\<rparr> \<lparr>year = 2024, month = 3, day = 10\<rparr>
   \<and> get_day_info (PyDate \<lparr>year = 2024, month = 2, day = 15\<rparr>)
         (PyDate \<lparr>year = 2024, month = 3, day = 10\<rparr>) 28 5 False =
       Inl (ValueError ''Target date can not be before the last period start date.'')
   \<and> \<not> date_lt \<lparr>year = 2024, month = 3, day = 10\<rparr> \<lparr>year = 2024, month = 2, day = 15\<rparr>
   \<and> (28::int) < 29
   \<and> get_cycle_day (PyDate \<lparr>year = 2024, month = 3, day = 10\<rparr>)
         (PyDate \<lparr>year = 2024, month = 2, day = 15\<rparr>) 28 = Inr 25
   \<and> get_cycle_phase 25 28 29 14 =
       Inl (ValueError ''Period length cannot be longer than cycle length.'')
   \<and> get_day_info (PyDate \<lparr>year = 2024, month = 3, day = 10\<rparr>)
         (PyDate \<lparr>year = 2024, month = 2, day = 15\<rparr>) 28 29 False =
       Inl (ValueError
         ''Error calculating day info: Period length cannot be longer than cycle length.'')
   \<and> (\<exists>info. get_day_info (PyDate \<lparr>year = 2024, month = 3, day = 10\<rparr>)
         (PyDate \<lparr>year = 2024, month = 2, day = 15\<rparr>) 28 5 True = Inr info)
   \<and> day_info_except (Inl (KeyError ''x'') :: error + DayInfo) =
       Inl (Exception (''An unexpected error occurred: '' @ [CHR 0x27] @ ''x'' @ [CHR 0x27]))"
proof -
  let ?t = "\<lparr>year = 2024, month = 3, day = 10\<rparr>"
  let ?a = "\<lparr>year = 2024, month = 2, day = 15\<rparr>"
  have lt: "date_lt ?a ?t" and nlt: "\<not> date_lt ?t ?a"
    by (simp_all add: date_lt_def)
  have cd: "get_cycle_day (PyDate ?t) (PyDate ?a) 28 = Inr 25"
    by (simp add: date_lt_def sub_days_def toordinal_def days_before_year_def
        days_before_month_def is_leap_def Let_def clamp_cycle_length_cases)
  have ph: "get_cycle_phase 25 28 29 14 =
       Inl (ValueError ''Period length cannot be longer than cycle length.'')"
    by (simp add: get_cycle_phase_def)
  have pos: "(0::int) < 28" "(0::int) < 29"
    by simp_all
  have w1: "get_day_info PyNone (PyDate ?a) 28 5 False =
       Inl (ValueError ''target_date and last_period_start_date must be date objects.'')"
    using get_day_info_errors [of PyNone "PyDate ?a" 28 5 False ?t ?a "KeyError ''x''"] by simp
  have w2: "get_day_info (PyDate ?t) (PyDate ?a) 0 5 False =
       Inl (ValueError ''cycle_length and period_length must be positive integers.'')"
    using get_day_info_errors [of "PyDate ?t" "PyDate ?a" 0 5 False ?t ?a "KeyError ''x''"] by simp
  have w3: "get_day_info (PyDate ?a) (PyDate ?t) 28 5 False =
       Inl (ValueError ''Target date can not be before the last period start date.'')"
    using get_day_info_errors [of "PyDate ?a" "PyDate ?t" 28 5 False ?a ?t "KeyError ''x''"] lt by simp
  have "\<forall>d m. get_cycle_day (PyDate ?t) (PyDate ?a) 28 = Inr d
              \<and> get_cycle_phase d 28 29 14 = Inl (ValueError m) \<longrightarrow>
           get_day_info (PyDate ?t) (PyDate ?a) 28 29 False =
             Inl (ValueError (''Error calculating day info: '' @ m))"
    using get_day_info_errors [of "PyDate ?t" "PyDate ?a" 28 29 False ?t ?a "KeyError ''x''"] nlt pos
    by blast
  with cd ph have w4: "get_day_info (PyDate ?t) (PyDate ?a) 28 29 False =
       Inl (ValueError (''Error calculating day info: ''
          @ ''Period length cannot be longer than cycle length.''))"
    by blast
  have w5: "\<exists>info. get_day_info (PyDate ?t) (PyDate ?a) 28 5 True = Inr info"
    using get_day_info_errors [of "PyDate ?t" "PyDate ?a" 28 5 True ?t ?a "KeyError ''x''"] nlt by simp
  have w6: "day_info_except (Inl (KeyError ''x'') :: error + DayInfo) =
       Inl (Exception (''An unexpected error occurred: '' @ error_str (KeyError ''x'')))"
    using get_day_info_errors [of "PyDate ?t" "PyDate ?a" 28 5 True ?t ?a "KeyError ''x''"] by simp
  from w1 w2 w3 w4 w5 w6 lt nlt cd ph show ?thesis by simp
qed

end
